theory Spec2Isabelle
  imports Complex_Main
begin

section \<open>Pesticide MRL compliance checker: the model\<close>

text \<open>
  A shallow embedding of \<^verbatim>\<open>src/pesticide_checker.py\<close>. The definitions of the
  checker follow the methods of class \<^verbatim>\<open>PesticideChecker\<close> and keep their names, the
  order of their tests and their literals. An optional value is an \<open>option\<close>; the
  truth test of an optional string (\<^verbatim>\<open>if row['eu_expiration']\<close>,
  \<^verbatim>\<open>if not pesticide_type\<close>) is false for \<^verbatim>\<open>None\<close> and for the empty string.
\<close>

subsection \<open>Strings\<close>

text \<open>
  A Python \<^verbatim>\<open>str\<close> is modelled by its UTF-8 bytes. Equality of two strings and
  membership in a list of strings are the same on code points and on UTF-8 bytes. The
  accented letter of the French status words is the two bytes C3 A9.
\<close>

definition e_acute :: string where
  "e_acute = [CHR 0xC3, CHR 0xA9]"

definition non_approuvee :: string where
  "non_approuvee = ''Non approuv'' @ e_acute @ ''e''"

definition non_reprise :: string where
  "non_reprise = ''Non reprise dans la liste''"

definition approuvee :: string where
  "approuvee = ''Approuv'' @ e_acute @ ''e''"

text \<open>
  \<^verbatim>\<open>str.upper()\<close> is used by the source only in the tests
  \<^verbatim>\<open>target_market.upper() == "EU"\<close> and \<^verbatim>\<open>target_market.upper() == "CODEX"\<close>. No
  character outside ASCII has an upper case made of the letters C, D, E, O, U, X, and a
  byte of 0x80 or more is left as it is below, so \<open>upper\<close> agrees with Python on both
  tests.
\<close>

definition upper_char :: "char \<Rightarrow> char" where
  "upper_char c =
     (case map_of (zip ''abcdefghijklmnopqrstuvwxyz'' ''ABCDEFGHIJKLMNOPQRSTUVWXYZ'') c of
        Some u \<Rightarrow> u
      | None \<Rightarrow> c)"

definition upper :: "string \<Rightarrow> string" where
  "upper s = map upper_char s"

definition lower_char :: "char \<Rightarrow> char" where
  "lower_char c =
     (case map_of (zip ''ABCDEFGHIJKLMNOPQRSTUVWXYZ'' ''abcdefghijklmnopqrstuvwxyz'') c of
        Some l \<Rightarrow> l
      | None \<Rightarrow> c)"

definition lower :: "string \<Rightarrow> string" where
  "lower s = map lower_char s"

subsection \<open>Numbers\<close>

text \<open>
  Residue levels and limits are Python floats. The source only compares them
  (\<^verbatim>\<open>residue_level > mrl\<close>), with no arithmetic and no rounding, so a finite float is
  modelled by the real number it denotes; the infinities and NaN are kept, with the
  comparison of IEEE 754: every comparison with NaN is false.
\<close>

datatype pyfloat = Finite real | PosInf | NegInf | NaN

fun float_gt :: "pyfloat \<Rightarrow> pyfloat \<Rightarrow> bool" where
  "float_gt NaN _ = False"
| "float_gt _ NaN = False"
| "float_gt (Finite x) (Finite y) = (y < x)"
| "float_gt PosInf PosInf = False"
| "float_gt PosInf _ = True"
| "float_gt _ PosInf = False"
| "float_gt NegInf _ = False"
| "float_gt _ NegInf = True"

fun float_le :: "pyfloat \<Rightarrow> pyfloat \<Rightarrow> bool" where
  "float_le NaN _ = False"
| "float_le _ NaN = False"
| "float_le (Finite x) (Finite y) = (x \<le> y)"
| "float_le NegInf _ = True"
| "float_le _ PosInf = True"
| "float_le _ _ = False"

subsection \<open>Dates\<close>

text \<open>
  A \<^verbatim>\<open>datetime\<close> is either naive or aware of a time zone; both carry their instant
  in microseconds. \<^verbatim>\<open>datetime.now()\<close> is naive. Subtracting a naive value from an aware
  one raises \<^verbatim>\<open>TypeError\<close>; the difference of two naive values is a \<^verbatim>\<open>timedelta\<close>
  whose \<^verbatim>\<open>days\<close> is the floor of the difference in days.
\<close>

datatype datetime = Naive int | Aware int

definition us_per_day :: int where
  "us_per_day = 86400000000"

text \<open>\<^verbatim>\<open>(exp_date - datetime.now()).days\<close>; \<open>None\<close> is the \<^verbatim>\<open>TypeError\<close>.\<close>

fun days_until_now :: "datetime \<Rightarrow> int \<Rightarrow> int option" where
  "days_until_now (Naive t) n = Some ((t - n) div us_per_day)"
| "days_until_now (Aware t) n = None"

subsection \<open>Rows of the table and results\<close>

text \<open>
  A value of a JSON column whose type the source never inspects (the GAP columns are
  only copied).
\<close>

datatype json = JString string | JNumber real | JBool bool

text \<open>
  One row of table \<^verbatim>\<open>pesticide_mrl\<close>, as the store returns it for
  \<^verbatim>\<open>select('*')\<close>: every column is present, and \<open>None\<close> is the JSON \<^verbatim>\<open>null\<close>.
\<close>

record row =
  row_crop :: string
  row_active_substance :: string
  row_eu_status :: "string option"
  row_mrl_eu :: "pyfloat option"
  row_mrl_eu_flag :: "string option"
  row_eu_expiration :: "string option"
  row_mrl_codex :: "pyfloat option"
  row_mrl_codex_flag :: "string option"
  row_pesticide_type :: "string option"
  row_dose :: "json option"
  row_max_applications :: "json option"
  row_interval_days :: "json option"
  row_preharvest_eu :: "json option"
  row_preharvest_codex :: "json option"
  row_who_class :: "json option"
  row_resistance_group :: "json option"

text \<open>The dictionary built by \<^verbatim>\<open>_extract_gap\<close>, one field per key.\<close>

record gap =
  gap_dose :: "json option"
  gap_max_applications :: "json option"
  gap_interval_days :: "json option"
  gap_preharvest_interval_eu :: "json option"
  gap_preharvest_interval_codex :: "json option"
  gap_who_toxicity_class :: "json option"
  gap_pesticide_type :: "string option"
  gap_resistance_group :: "json option"

text \<open>
  The message of a result is an f-string. It is kept as the template that the branch
  uses together with the values interpolated into it: the text is a function of both.
\<close>

datatype message =
    MsgNotApproved string string
  | MsgExpires string int string
  | MsgExceedsEU pyfloat pyfloat
  | MsgCompliantEU pyfloat pyfloat bool
  | MsgInfoEU string string "pyfloat option" "string option"
  | MsgNoCodex string string
  | MsgExceedsCodex pyfloat pyfloat
  | MsgCompliantCodex pyfloat pyfloat
  | MsgInfoCodex string string pyfloat
  | MsgNoData string string

record ComplianceResult =
  status :: string
  severity :: string
  message :: message
  crop :: string
  substance :: string
  target_market :: string
  mrl_limit :: "pyfloat option"
  mrl_flag :: "string option"
  residue_level :: "pyfloat option"
  eu_status :: "string option"
  gap_recommendations :: "gap option"
  alternatives :: "string list option"
  references :: "string list"

datatype error = ValueError string

subsection \<open>The environment of a call\<close>

text \<open>
  What a call reads besides its arguments: the rows of the table in the store's native
  order, the clock (\<^verbatim>\<open>datetime.now()\<close>, naive, in microseconds) and the library function
  \<^verbatim>\<open>datetime.fromisoformat\<close>, where \<open>None\<close> stands for the exception it raises on a
  text it does not accept.
\<close>

record env =
  pesticide_mrl :: "row list"
  now :: int
  fromisoformat :: "string \<Rightarrow> datetime option"

text \<open>
  Modelled from the spec: the filters of the store's query builder, which is not part of
  the repository. \<^verbatim>\<open>ilike(column, value)\<close> is the case-insensitive match of the whole
  field, \<^verbatim>\<open>ilike(column, '%' + value + '%')\<close> is case-insensitive containment, a
  \<^verbatim>\<open>null\<close> field matches nothing, \<^verbatim>\<open>eq\<close> is equality and \<^verbatim>\<open>limit(n)\<close> keeps the
  first \<open>n\<close> rows.
\<close>

definition ilike :: "string \<Rightarrow> string \<Rightarrow> bool" where
  "ilike field val = (lower field = lower val)"

fun is_prefix :: "string \<Rightarrow> string \<Rightarrow> bool" where
  "is_prefix [] ys = True"
| "is_prefix (x # xs) [] = False"
| "is_prefix (x # xs) (y # ys) = (x = y \<and> is_prefix xs ys)"

fun contains :: "string \<Rightarrow> string \<Rightarrow> bool" where
  "contains [] xs = (xs = [])"
| "contains (y # ys) xs = (is_prefix xs (y # ys) \<or> contains ys xs)"

fun ilike_contains :: "string option \<Rightarrow> string \<Rightarrow> bool" where
  "ilike_contains None val = False"
| "ilike_contains (Some field) val = contains (lower field) (lower val)"

subsection \<open>The checker\<close>

text \<open>\<^verbatim>\<open>_extract_gap\<close>: a projection of the row; \<^verbatim>\<open>row.get\<close> of a column is its value.\<close>

definition extract_gap :: "row \<Rightarrow> gap" where
  "extract_gap r =
     \<lparr>gap_dose = row_dose r,
      gap_max_applications = row_max_applications r,
      gap_interval_days = row_interval_days r,
      gap_preharvest_interval_eu = row_preharvest_eu r,
      gap_preharvest_interval_codex = row_preharvest_codex r,
      gap_who_toxicity_class = row_who_class r,
      gap_pesticide_type = row_pesticide_type r,
      gap_resistance_group = row_resistance_group r\<rparr>"

text \<open>
  \<^verbatim>\<open>_find_alternatives\<close>, returning the names together with the number of queries sent
  to the store: the guard \<^verbatim>\<open>if not pesticide_type\<close> returns before any query is
  built.
\<close>

definition find_alternatives_traced :: "env \<Rightarrow> string \<Rightarrow> string option \<Rightarrow> string list \<times> nat" where
  "find_alternatives_traced e c pesticide_type =
     (case pesticide_type of
        None \<Rightarrow> ([], 0)
      | Some t \<Rightarrow>
          if t = [] then ([], 0)
          else (map row_active_substance
                  (take 5
                    (filter (\<lambda>r. ilike (row_crop r) c
                                \<and> ilike_contains (row_pesticide_type r) t
                                \<and> row_eu_status r = Some approuvee)
                       (pesticide_mrl e))), 1))"

definition find_alternatives :: "env \<Rightarrow> string \<Rightarrow> string option \<Rightarrow> string list" where
  "find_alternatives e c pesticide_type = fst (find_alternatives_traced e c pesticide_type)"

definition create_unknown_result ::
  "string \<Rightarrow> string \<Rightarrow> string \<Rightarrow> pyfloat option \<Rightarrow> ComplianceResult" where
  "create_unknown_result c s market residue =
     \<lparr>status = ''UNKNOWN'',
      severity = ''INFO'',
      message = MsgNoData s c,
      crop = c,
      substance = s,
      target_market = market,
      mrl_limit = None,
      mrl_flag = None,
      residue_level = residue,
      eu_status = None,
      gap_recommendations = None,
      alternatives = None,
      references = [''COLEAD GAP Database'']\<rparr>"

text \<open>
  The test of \<^verbatim>\<open>eu_status\<close> against the list of the two French status words; a
  \<^verbatim>\<open>null\<close> status is in no list of strings.
\<close>

definition not_approved :: "row \<Rightarrow> bool" where
  "not_approved r = (row_eu_status r \<in> set [Some non_approuvee, Some non_reprise])"

text \<open>
  The block \<^verbatim>\<open>if row['eu_expiration']: try: ... except: pass\<close>. \<open>Some\<close> is the
  result returned from inside the block; \<open>None\<close> means that control leaves the block:
  the column is empty, an exception was raised and swallowed, or 180 days or more remain.
\<close>

definition expiring :: "env \<Rightarrow> row \<Rightarrow> pyfloat option \<Rightarrow> ComplianceResult option" where
  "expiring e r residue =
     (case row_eu_expiration r of
        None \<Rightarrow> None
      | Some txt \<Rightarrow>
          if txt = [] then None
          else (case fromisoformat e txt of
                  None \<Rightarrow> None
                | Some exp_date \<Rightarrow>
                    (case days_until_now exp_date (now e) of
                       None \<Rightarrow> None
                     | Some days_until \<Rightarrow>
                         if days_until < 180
                         then Some
                           \<lparr>status = ''WARNING'',
                            severity = ''MAJOR'',
                            message = MsgExpires (row_active_substance r) days_until txt,
                            crop = row_crop r,
                            substance = row_active_substance r,
                            target_market = ''EU'',
                            mrl_limit = row_mrl_eu r,
                            mrl_flag = row_mrl_eu_flag r,
                            residue_level = residue,
                            eu_status = row_eu_status r,
                            gap_recommendations = Some (extract_gap r),
                            alternatives = None,
                            references = [''COLEAD GAP Database'']\<rparr>
                         else None)))"

text \<open>The rest of \<^verbatim>\<open>_check_eu_compliance\<close>, after the two rules above.\<close>

definition eu_residue :: "row \<Rightarrow> pyfloat option \<Rightarrow> ComplianceResult" where
  "eu_residue r residue =
     (case (residue, row_mrl_eu r) of
        (Some x, Some mrl_eu) \<Rightarrow>
          if float_gt x mrl_eu
          then \<lparr>status = ''NON_COMPLIANT'',
                severity = ''MAJOR'',
                message = MsgExceedsEU x mrl_eu,
                crop = row_crop r,
                substance = row_active_substance r,
                target_market = ''EU'',
                mrl_limit = row_mrl_eu r,
                mrl_flag = row_mrl_eu_flag r,
                residue_level = residue,
                eu_status = row_eu_status r,
                gap_recommendations = Some (extract_gap r),
                alternatives = None,
                references = [''COLEAD GAP Database'', ''EU Reg 396/2005'']\<rparr>
          else \<lparr>status = ''COMPLIANT'',
                severity = ''INFO'',
                message = MsgCompliantEU x mrl_eu (row_mrl_eu_flag r = Some ''LOQ''),
                crop = row_crop r,
                substance = row_active_substance r,
                target_market = ''EU'',
                mrl_limit = row_mrl_eu r,
                mrl_flag = row_mrl_eu_flag r,
                residue_level = residue,
                eu_status = row_eu_status r,
                gap_recommendations = Some (extract_gap r),
                alternatives = None,
                references = [''COLEAD GAP Database'']\<rparr>
      | _ \<Rightarrow>
          \<lparr>status = ''INFO'',
           severity = ''INFO'',
           message = MsgInfoEU (row_active_substance r) (row_crop r) (row_mrl_eu r) (row_eu_status r),
           crop = row_crop r,
           substance = row_active_substance r,
           target_market = ''EU'',
           mrl_limit = row_mrl_eu r,
           mrl_flag = row_mrl_eu_flag r,
           residue_level = None,
           eu_status = row_eu_status r,
           gap_recommendations = Some (extract_gap r),
           alternatives = None,
           references = [''COLEAD GAP Database'']\<rparr>)"

definition check_eu_compliance :: "env \<Rightarrow> row \<Rightarrow> pyfloat option \<Rightarrow> ComplianceResult" where
  "check_eu_compliance e r residue =
     (if not_approved r
      then \<lparr>status = ''NON_COMPLIANT'',
            severity = ''CRITICAL'',
            message = MsgNotApproved (row_active_substance r) (row_crop r),
            crop = row_crop r,
            substance = row_active_substance r,
            target_market = ''EU'',
            mrl_limit = row_mrl_eu r,
            mrl_flag = row_mrl_eu_flag r,
            residue_level = residue,
            eu_status = row_eu_status r,
            gap_recommendations = None,
            alternatives = Some (find_alternatives e (row_crop r) (row_pesticide_type r)),
            references = [''COLEAD GAP Database'', ''EU Reg 396/2005'']\<rparr>
      else (case expiring e r residue of
              Some res \<Rightarrow> res
            | None \<Rightarrow> eu_residue r residue))"

definition check_codex_compliance :: "row \<Rightarrow> pyfloat option \<Rightarrow> ComplianceResult" where
  "check_codex_compliance r residue =
     (case row_mrl_codex r of
        None \<Rightarrow>
          \<lparr>status = ''UNKNOWN'',
           severity = ''INFO'',
           message = MsgNoCodex (row_active_substance r) (row_crop r),
           crop = row_crop r,
           substance = row_active_substance r,
           target_market = ''Codex'',
           mrl_limit = None,
           mrl_flag = None,
           residue_level = residue,
           eu_status = row_eu_status r,
           gap_recommendations = Some (extract_gap r),
           alternatives = None,
           references = [''COLEAD GAP Database'', ''Codex Alimentarius'']\<rparr>
      | Some mrl_codex \<Rightarrow>
          (case residue of
             Some x \<Rightarrow>
               if float_gt x mrl_codex
               then \<lparr>status = ''NON_COMPLIANT'',
                     severity = ''MAJOR'',
                     message = MsgExceedsCodex x mrl_codex,
                     crop = row_crop r,
                     substance = row_active_substance r,
                     target_market = ''Codex'',
                     mrl_limit = Some mrl_codex,
                     mrl_flag = row_mrl_codex_flag r,
                     residue_level = residue,
                     eu_status = row_eu_status r,
                     gap_recommendations = Some (extract_gap r),
                     alternatives = None,
                     references = [''COLEAD GAP Database'', ''Codex Alimentarius'']\<rparr>
               else \<lparr>status = ''COMPLIANT'',
                     severity = ''INFO'',
                     message = MsgCompliantCodex x mrl_codex,
                     crop = row_crop r,
                     substance = row_active_substance r,
                     target_market = ''Codex'',
                     mrl_limit = Some mrl_codex,
                     mrl_flag = row_mrl_codex_flag r,
                     residue_level = residue,
                     eu_status = row_eu_status r,
                     gap_recommendations = Some (extract_gap r),
                     alternatives = None,
                     references = [''COLEAD GAP Database'', ''Codex Alimentarius'']\<rparr>
           | None \<Rightarrow>
               \<lparr>status = ''INFO'',
                severity = ''INFO'',
                message = MsgInfoCodex (row_active_substance r) (row_crop r) mrl_codex,
                crop = row_crop r,
                substance = row_active_substance r,
                target_market = ''Codex'',
                mrl_limit = Some mrl_codex,
                mrl_flag = row_mrl_codex_flag r,
                residue_level = None,
                eu_status = row_eu_status r,
                gap_recommendations = Some (extract_gap r),
                alternatives = None,
                references = [''COLEAD GAP Database'', ''Codex Alimentarius'']\<rparr>))"

text \<open>
  The query of \<^verbatim>\<open>check_compliance\<close>: the rows whose crop and active substance both
  match, in the store's order (\<^verbatim>\<open>response.data\<close>).
\<close>

definition query_rows :: "env \<Rightarrow> string \<Rightarrow> string \<Rightarrow> row list" where
  "query_rows e c s =
     filter (\<lambda>r. ilike (row_crop r) c \<and> ilike (row_active_substance r) s) (pesticide_mrl e)"

text \<open>
  \<^verbatim>\<open>check_compliance\<close>. The \<^verbatim>\<open>ValueError\<close> keeps the market it was raised for, the one
  value interpolated into its text.
\<close>

definition check_compliance ::
  "env \<Rightarrow> string \<Rightarrow> string \<Rightarrow> string \<Rightarrow> pyfloat option \<Rightarrow> error + ComplianceResult" where
  "check_compliance e c s market residue =
     (case query_rows e c s of
        [] \<Rightarrow> Inr (create_unknown_result c s market residue)
      | r # _ \<Rightarrow>
          if upper market = ''EU'' then Inr (check_eu_compliance e r residue)
          else if upper market = ''CODEX'' then Inr (check_codex_compliance r residue)
          else Inl (ValueError market))"

text \<open>The result of a call that returned, and its status and severity.\<close>

definition returned :: "error + ComplianceResult \<Rightarrow> ComplianceResult option" where
  "returned x = (case x of Inl _ \<Rightarrow> None | Inr res \<Rightarrow> Some res)"

definition verdict :: "error + ComplianceResult \<Rightarrow> (string \<times> string) option" where
  "verdict x = (case x of Inl _ \<Rightarrow> None | Inr res \<Rightarrow> Some (status res, severity res))"

text \<open>The record that a call evaluates: the first row of the answer, if there is one.\<close>

definition first_row :: "row list \<Rightarrow> row option" where
  "first_row rows = (case rows of [] \<Rightarrow> None | r # _ \<Rightarrow> Some r)"

subsection \<open>A concrete clock and parser\<close>

text \<open>
  The date-only form \<^verbatim>\<open>YYYY-MM-DD\<close> of \<^verbatim>\<open>datetime.fromisoformat\<close>, which yields the
  naive midnight of that day, and the proleptic Gregorian day number of the standard
  library (\<^verbatim>\<open>_ymd2ord\<close>). They give the concrete environments below a parser and a
  clock; the general results hold for any parser.
\<close>

definition digit_val :: "char \<Rightarrow> nat option" where
  "digit_val c = map_of (zip ''0123456789'' [0, 1, 2, 3, 4, 5, 6, 7, 8, 9]) c"

fun number_of :: "nat \<Rightarrow> string \<Rightarrow> nat option" where
  "number_of acc [] = Some acc"
| "number_of acc (c # cs) =
     (case digit_val c of None \<Rightarrow> None | Some d \<Rightarrow> number_of (10 * acc + d) cs)"

definition is_leap :: "int \<Rightarrow> bool" where
  "is_leap y = (y mod 4 = 0 \<and> (y mod 100 \<noteq> 0 \<or> y mod 400 = 0))"

definition days_in_month :: "int \<Rightarrow> int \<Rightarrow> int" where
  "days_in_month y m =
     (if m = 2 then (if is_leap y then 29 else 28)
      else if m \<in> set [4, 6, 9, 11] then 30 else 31)"

definition days_before_month :: "int \<Rightarrow> int \<Rightarrow> int" where
  "days_before_month y m =
     [0, 31, 59, 90, 120, 151, 181, 212, 243, 273, 304, 334] ! nat (m - 1)
       + (if 2 < m \<and> is_leap y then 1 else 0)"

definition ymd2ord :: "int \<Rightarrow> int \<Rightarrow> int \<Rightarrow> int" where
  "ymd2ord y m d =
     (y - 1) * 365 + (y - 1) div 4 - (y - 1) div 100 + (y - 1) div 400
       + days_before_month y m + d"

definition midnight :: "int \<Rightarrow> int \<Rightarrow> int \<Rightarrow> int" where
  "midnight y m d = ymd2ord y m d * us_per_day"

definition parse_ymd :: "string \<Rightarrow> datetime option" where
  "parse_ymd txt =
     (if length txt = 10 \<and> txt ! 4 = CHR ''-'' \<and> txt ! 7 = CHR ''-''
      then (case (number_of 0 (take 4 txt), number_of 0 (take 2 (drop 5 txt)),
                  number_of 0 (drop 8 txt)) of
              (Some y, Some m, Some d) \<Rightarrow>
                if 1 \<le> y \<and> 1 \<le> m \<and> m \<le> 12 \<and> 1 \<le> d \<and> int d \<le> days_in_month (int y) (int m)
                then Some (Naive (midnight (int y) (int m) (int d)))
                else None
            | _ \<Rightarrow> None)
      else None)"

subsection \<open>A sample table\<close>

definition sample_row ::
  "string \<Rightarrow> string \<Rightarrow> string option \<Rightarrow> pyfloat option \<Rightarrow> string option \<Rightarrow> pyfloat option
     \<Rightarrow> string option \<Rightarrow> row" where
  "sample_row c s st eu expiration cx pt =
     \<lparr>row_crop = c, row_active_substance = s, row_eu_status = st, row_mrl_eu = eu,
      row_mrl_eu_flag = None, row_eu_expiration = expiration, row_mrl_codex = cx,
      row_mrl_codex_flag = None, row_pesticide_type = pt, row_dose = None,
      row_max_applications = None, row_interval_days = None, row_preharvest_eu = None,
      row_preharvest_codex = None, row_who_class = None, row_resistance_group = None\<rparr>"

definition azoxystrobin :: row where
  "azoxystrobin = sample_row ''mango'' ''Azoxystrobin'' (Some approuvee) (Some (Finite 5)) None
     (Some (Finite (7 / 10))) (Some ''Fongicide'')"

definition alpha_cypermethrin :: row where
  "alpha_cypermethrin = sample_row ''mango'' ''Alpha-cypermethrin'' (Some non_approuvee)
     (Some (Finite (1 / 100))) (Some ''2026-12-01'') None (Some ''Insecticide'')"

definition lambda_cyhalothrin :: row where
  "lambda_cyhalothrin = sample_row ''mango'' ''Lambda-cyhalothrin'' (Some approuvee)
     (Some (Finite (1 / 5))) (Some ''2026-12-01'') (Some (Finite (1 / 5))) (Some ''Insecticide'')"

definition chlorpyrifos :: row where
  "chlorpyrifos = sample_row ''mango'' ''Chlorpyrifos'' (Some ''Not approved'') (Some (Finite 1))
     None None (Some ''Insecticide'')"

definition carbendazim :: row where
  "carbendazim = sample_row ''mango'' ''Carbendazim'' (Some non_reprise) None
     (Some ''end of 2026'') (Some (Finite (1 / 2))) (Some ''Fongicide'')"

definition mancozeb :: row where
  "mancozeb = sample_row ''tomato'' ''Mancozeb'' (Some approuvee) (Some (Finite 3))
     (Some ''end of 2026'') (Some (Finite 2)) (Some ''Fongicide'')"

text \<open>A row with its GAP columns filled in, except the Codex pre-harvest interval.\<close>

definition thiabendazole :: row where
  "thiabendazole =
     (sample_row ''papaya'' ''Thiabendazole'' (Some approuvee) (Some (Finite 10)) None None
        (Some ''Fongicide''))
       \<lparr>row_dose := Some (JString ''0.5 kg/ha''),
        row_max_applications := Some (JNumber 2),
        row_interval_days := Some (JNumber 14),
        row_preharvest_eu := Some (JNumber 7),
        row_who_class := Some (JString ''III''),
        row_resistance_group := Some (JString ''1'')\<rparr>"

definition sample_rows :: "row list" where
  "sample_rows =
     [azoxystrobin, alpha_cypermethrin, lambda_cyhalothrin, chlorpyrifos, carbendazim, mancozeb,
      thiabendazole]"

text \<open>The sample table read at instant \<open>t\<close>, with the date-only parser.\<close>

definition sample_env :: "int \<Rightarrow> env" where
  "sample_env t = \<lparr>pesticide_mrl = sample_rows, now = t, fromisoformat = parse_ymd\<rparr>"

lemmas sample_defs =
  sample_env_def sample_rows_def sample_row_def azoxystrobin_def alpha_cypermethrin_def
  lambda_cyhalothrin_def chlorpyrifos_def carbendazim_def mancozeb_def thiabendazole_def

lemmas string_defs =
  upper_def upper_char_def lower_def lower_char_def ilike_def non_approuvee_def
  non_reprise_def approuvee_def e_acute_def

lemmas date_defs =
  parse_ymd_def digit_val_def days_in_month_def is_leap_def midnight_def ymd2ord_def
  days_before_month_def us_per_day_def

lemmas checker_defs =
  check_compliance_def query_rows_def check_eu_compliance_def check_codex_compliance_def
  create_unknown_result_def not_approved_def expiring_def eu_residue_def verdict_def
  returned_def first_row_def find_alternatives_def find_alternatives_traced_def

section \<open>Properties\<close>

subsection \<open>Shared lemmas\<close>

lemma check_compliance_found:
  "query_rows e c s = r # rest \<Longrightarrow>
   check_compliance e c s market residue =
     (if upper market = ''EU'' then Inr (check_eu_compliance e r residue)
      else if upper market = ''CODEX'' then Inr (check_codex_compliance r residue)
      else Inl (ValueError market))"
  by (simp add: check_compliance_def)

lemma check_compliance_absent:
  "query_rows e c s = [] \<Longrightarrow>
   check_compliance e c s market residue = Inr (create_unknown_result c s market residue)"
  by (simp add: check_compliance_def)

lemma float_le_not_gt: "float_le x y \<Longrightarrow> \<not> float_gt x y"
  by (cases x; cases y) simp_all

lemma is_prefix_iff: "is_prefix xs ys \<longleftrightarrow> (\<exists>suf. ys = xs @ suf)"
  by (induction xs ys rule: is_prefix.induct) auto

lemma contains_iff: "contains ys xs \<longleftrightarrow> (\<exists>pre suf. ys = pre @ xs @ suf)"
proof (induction ys)
  case Nil
  show ?case by simp
next
  case (Cons y ys)
  show ?case
  proof
    assume "contains (y # ys) xs"
    then consider "is_prefix xs (y # ys)" | "contains ys xs"
      by auto
    then show "\<exists>pre suf. y # ys = pre @ xs @ suf"
    proof cases
      case 1
      then obtain suf where "y # ys = xs @ suf"
        by (auto simp: is_prefix_iff)
      then have "y # ys = [] @ xs @ suf"
        by simp
      then show ?thesis by blast
    next
      case 2
      with Cons.IH obtain pre suf where "ys = pre @ xs @ suf"
        by blast
      then have "y # ys = (y # pre) @ xs @ suf"
        by simp
      then show ?thesis by blast
    qed
  next
    assume "\<exists>pre suf. y # ys = pre @ xs @ suf"
    then obtain pre suf where eq: "y # ys = pre @ xs @ suf"
      by blast
    show "contains (y # ys) xs"
    proof (cases pre)
      case Nil
      with eq have "is_prefix xs (y # ys)"
        by (auto simp: is_prefix_iff)
      then show ?thesis by simp
    next
      case (Cons p pre')
      with eq have "ys = pre' @ xs @ suf"
        by simp
      with Cons.IH have "contains ys xs"
        by blast
      then show ?thesis by simp
    qed
  qed
qed

lemma unknown_result_pair:
  "(status (create_unknown_result c s market residue),
    severity (create_unknown_result c s market residue)) = (''UNKNOWN'', ''INFO'')"
  by (simp add: create_unknown_result_def)

lemma expiring_pair:
  "expiring e r residue = Some res \<Longrightarrow>
   (status res, severity res) = (''WARNING'', ''MAJOR'')
   \<and> references res = [''COLEAD GAP Database'']"
  by (auto simp: expiring_def split: option.splits if_splits)

lemma eu_residue_pair:
  "(status (eu_residue r residue), severity (eu_residue r residue)) \<in>
     {(''NON_COMPLIANT'', ''MAJOR''), (''COMPLIANT'', ''INFO''), (''INFO'', ''INFO'')}"
  by (simp add: eu_residue_def split: option.splits)

lemma eu_residue_references:
  "references (eu_residue r residue) \<in>
     {[''COLEAD GAP Database'', ''EU Reg 396/2005''], [''COLEAD GAP Database'']}"
  by (simp add: eu_residue_def split: option.splits)

lemma check_eu_pair:
  "(status (check_eu_compliance e r residue), severity (check_eu_compliance e r residue)) \<in>
     {(''NON_COMPLIANT'', ''CRITICAL''), (''NON_COMPLIANT'', ''MAJOR''), (''WARNING'', ''MAJOR''),
      (''COMPLIANT'', ''INFO''), (''INFO'', ''INFO'')}"
proof (cases "not_approved r")
  case True
  then show ?thesis
    by (simp add: check_eu_compliance_def)
next
  case False
  show ?thesis
  proof (cases "expiring e r residue")
    case None
    with False have "check_eu_compliance e r residue = eu_residue r residue"
      by (simp add: check_eu_compliance_def)
    with eu_residue_pair [of r residue] show ?thesis
      by auto
  next
    case (Some res)
    with False have "check_eu_compliance e r residue = res"
      by (simp add: check_eu_compliance_def)
    with expiring_pair [OF Some] show ?thesis
      by simp
  qed
qed

lemma check_eu_references:
  "references (check_eu_compliance e r residue) \<in>
     {[''COLEAD GAP Database'', ''EU Reg 396/2005''], [''COLEAD GAP Database'']}"
proof (cases "not_approved r")
  case True
  then show ?thesis
    by (simp add: check_eu_compliance_def)
next
  case False
  show ?thesis
  proof (cases "expiring e r residue")
    case None
    with False have "check_eu_compliance e r residue = eu_residue r residue"
      by (simp add: check_eu_compliance_def)
    with eu_residue_references [of r residue] show ?thesis
      by simp
  next
    case (Some res)
    with False have "check_eu_compliance e r residue = res"
      by (simp add: check_eu_compliance_def)
    with expiring_pair [OF Some] show ?thesis
      by simp
  qed
qed

lemma check_codex_pair:
  "(status (check_codex_compliance r residue), severity (check_codex_compliance r residue)) \<in>
     {(''UNKNOWN'', ''INFO''), (''NON_COMPLIANT'', ''MAJOR''), (''COMPLIANT'', ''INFO''),
      (''INFO'', ''INFO'')}"
  by (simp add: check_codex_compliance_def split: option.splits)

lemma check_codex_references:
  "references (check_codex_compliance r residue) = [''COLEAD GAP Database'', ''Codex Alimentarius'']"
  by (simp add: check_codex_compliance_def split: option.splits)

text \<open>Every call that returns does so through one of the three constructors of results.\<close>

lemma check_compliance_returns:
  assumes "check_compliance e c s market residue = Inr res"
  shows "res = create_unknown_result c s market residue
         \<or> (\<exists>r. res = check_eu_compliance e r residue)
         \<or> (\<exists>r. res = check_codex_compliance r residue)"
  using assms by (auto simp: check_compliance_def split: list.splits if_splits)

lemma expiring_same_clock:
  "now e1 = now e2 \<Longrightarrow> fromisoformat e1 = fromisoformat e2 \<Longrightarrow>
   expiring e1 r residue = expiring e2 r residue"
  by (simp add: expiring_def split: option.splits)

subsection \<open>C1: the non-approval rule of the EU branch\<close>

text \<open>
  C1, as stated, names the non-approved set as the English words "Not approved" and
  "Not listed". The source tests the French words the table stores. A record whose
  status is "Not approved" is not caught by the rule: with a limit of 1 mg/kg and a
  residue of 0.5 mg/kg the call answers COMPLIANT with severity INFO.
\<close>

theorem C1_english_status_counterexample:
  "query_rows (sample_env (midnight 2026 11 4)) ''mango'' ''Chlorpyrifos'' = [chlorpyrifos]
   \<and> row_eu_status chlorpyrifos = Some ''Not approved''
   \<and> verdict (check_compliance (sample_env (midnight 2026 11 4)) ''mango'' ''Chlorpyrifos'' ''EU''
        (Some (Finite (1 / 2)))) = Some (''COMPLIANT'', ''INFO'')"
  by (simp add: sample_defs string_defs checker_defs)

text \<open>
  C1, amended: for every record whose status is one of the two French words
  \<open>non_approuvee\<close> and \<open>non_reprise\<close> ("Non approuvee", its last but one letter
  accented, and "Non reprise dans la liste"), a call for
  market EU returns NON_COMPLIANT with severity CRITICAL whatever the residue level and
  the limits are; the alternatives are the answer of the alternatives query (possibly
  empty), the GAP recommendations are absent and the references are the database and
  EU Reg 396/2005.
\<close>

theorem C1_non_approval_critical:
  assumes "query_rows e c s = r # rest"
    and "upper market = ''EU''"
    and "row_eu_status r = Some non_approuvee \<or> row_eu_status r = Some non_reprise"
  shows "\<exists>res. check_compliance e c s market residue = Inr res
           \<and> status res = ''NON_COMPLIANT'' \<and> severity res = ''CRITICAL''
           \<and> alternatives res = Some (find_alternatives e (row_crop r) (row_pesticide_type r))
           \<and> gap_recommendations res = None
           \<and> references res = [''COLEAD GAP Database'', ''EU Reg 396/2005'']"
proof -
  from assms(3) have "not_approved r"
    by (auto simp: not_approved_def)
  with assms(1,2) show ?thesis
    by (simp add: check_compliance_found check_eu_compliance_def)
qed

theorem C1_non_approval_critical_witness:
  "query_rows (sample_env (midnight 2026 11 4)) ''Mango'' ''alpha-cypermethrin'' =
     [alpha_cypermethrin]
   \<and> upper ''eu'' = ''EU''
   \<and> row_eu_status alpha_cypermethrin = Some non_approuvee
   \<and> (\<exists>res. check_compliance (sample_env (midnight 2026 11 4)) ''Mango'' ''alpha-cypermethrin''
               ''eu'' (Some (Finite (1 / 1000))) = Inr res
           \<and> status res = ''NON_COMPLIANT'' \<and> severity res = ''CRITICAL''
           \<and> alternatives res = Some [''Lambda-cyhalothrin'']
           \<and> gap_recommendations res = None
           \<and> references res = [''COLEAD GAP Database'', ''EU Reg 396/2005''])"
proof -
  let ?e = "sample_env (midnight 2026 11 4)"
  have q: "query_rows ?e ''Mango'' ''alpha-cypermethrin'' = [alpha_cypermethrin]"
    by (simp add: sample_defs string_defs query_rows_def)
  have u: "upper ''eu'' = ''EU''"
    by (simp add: string_defs)
  have st: "row_eu_status alpha_cypermethrin = Some non_approuvee"
    by (simp add: sample_defs)
  have alt: "find_alternatives ?e (row_crop alpha_cypermethrin)
               (row_pesticide_type alpha_cypermethrin) = [''Lambda-cyhalothrin'']"
    by (simp add: sample_defs string_defs find_alternatives_def find_alternatives_traced_def)
  from C1_non_approval_critical [OF q u disjI1 [OF st], of "Some (Finite (1 / 1000))"]
  show ?thesis using q u st alt by simp
qed

subsection \<open>C2: no matching record\<close>

text \<open>
  C2, as stated, has every optional field of the result absent except the references.
  The residue level is an optional field of the result, and the source echoes the one
  it was given.
\<close>

theorem C2_residue_echo_counterexample:
  "query_rows (sample_env (midnight 2026 11 4)) ''tomato'' ''Unknownicide'' = []
   \<and> map_option residue_level
        (returned (check_compliance (sample_env (midnight 2026 11 4)) ''tomato'' ''Unknownicide''
           ''EU'' (Some (Finite (1 / 2))))) = Some (Some (Finite (1 / 2)))"
  by (simp add: sample_defs string_defs checker_defs)

text \<open>
  C2, amended: for every crop and substance with no matching record, for any target
  market and any optional residue level, the call returns UNKNOWN with severity INFO;
  the limit, its flag, the EU status, the GAP recommendations and the alternatives are
  absent, the residue level is the one supplied (absent only when none was supplied),
  and the references are the one-element list "COLEAD GAP Database", the same for
  every market.
\<close>

theorem C2_unknown_when_absent:
  assumes "query_rows e c s = []"
  shows "check_compliance e c s market residue =
     Inr \<lparr>status = ''UNKNOWN'', severity = ''INFO'', message = MsgNoData s c, crop = c,
          substance = s, target_market = market, mrl_limit = None, mrl_flag = None,
          residue_level = residue, eu_status = None, gap_recommendations = None,
          alternatives = None, references = [''COLEAD GAP Database'']\<rparr>"
  using assms by (simp add: check_compliance_absent create_unknown_result_def)

theorem C2_unknown_when_absent_witness:
  "query_rows (sample_env (midnight 2026 11 4)) ''tomato'' ''Unknownicide'' = []
   \<and> check_compliance (sample_env (midnight 2026 11 4)) ''tomato'' ''Unknownicide'' ''Mars'' None =
     Inr \<lparr>status = ''UNKNOWN'', severity = ''INFO'',
          message = MsgNoData ''Unknownicide'' ''tomato'', crop = ''tomato'',
          substance = ''Unknownicide'', target_market = ''Mars'', mrl_limit = None,
          mrl_flag = None, residue_level = None, eu_status = None,
          gap_recommendations = None, alternatives = None,
          references = [''COLEAD GAP Database'']\<rparr>"
proof -
  have q: "query_rows (sample_env (midnight 2026 11 4)) ''tomato'' ''Unknownicide'' = []"
    by (simp add: sample_defs string_defs query_rows_def)
  from C2_unknown_when_absent [OF q, of "''Mars''" None] q show ?thesis by simp
qed

subsection \<open>C3: what the result depends on\<close>

text \<open>
  C3, as stated, makes the result a function of the record, the market and the residue
  level alone. The expiry rule of the EU branch reads the clock: the same call on the
  same table is WARNING/MAJOR on 4 November 2026 and COMPLIANT/INFO on 1 January 2026,
  for a record whose approval expires on 1 December 2026.
\<close>

theorem C3_clock_counterexample:
  "pesticide_mrl (sample_env (midnight 2026 11 4)) = pesticide_mrl (sample_env (midnight 2026 1 1))
   \<and> verdict (check_compliance (sample_env (midnight 2026 11 4)) ''mango'' ''Lambda-cyhalothrin''
        ''EU'' (Some (Finite (1 / 10)))) = Some (''WARNING'', ''MAJOR'')
   \<and> verdict (check_compliance (sample_env (midnight 2026 1 1)) ''mango'' ''Lambda-cyhalothrin''
        ''EU'' (Some (Finite (1 / 10)))) = Some (''COMPLIANT'', ''INFO'')"
  by (simp add: sample_defs string_defs checker_defs date_defs)

text \<open>
  C3, amended: the result of a call is a function of the record or its absence, the
  target market, the optional residue level, the instant read from the clock and the
  answer of the store to the alternatives query for the record. Two calls with the same
  arguments that agree on these (and parse dates alike) return identical results or
  raise the same error, whatever else the store holds.
\<close>

theorem C3_determined_by_inputs:
  assumes "first_row (query_rows e1 c s) = first_row (query_rows e2 c s)"
    and "now e1 = now e2"
    and "fromisoformat e1 = fromisoformat e2"
    and "\<forall>r. first_row (query_rows e1 c s) = Some r \<longrightarrow>
           find_alternatives e1 (row_crop r) (row_pesticide_type r) =
           find_alternatives e2 (row_crop r) (row_pesticide_type r)"
  shows "check_compliance e1 c s market residue = check_compliance e2 c s market residue"
proof (cases "query_rows e1 c s")
  case Nil
  with assms(1) have "query_rows e2 c s = []"
    by (simp add: first_row_def split: list.splits)
  with Nil show ?thesis
    by (simp add: check_compliance_absent)
next
  case (Cons r rest)
  with assms(1) obtain rest' where q2: "query_rows e2 c s = r # rest'"
    by (auto simp: first_row_def split: list.splits)
  from Cons assms(4)
  have alt: "find_alternatives e1 (row_crop r) (row_pesticide_type r) =
             find_alternatives e2 (row_crop r) (row_pesticide_type r)"
    by (simp add: first_row_def)
  from assms(2,3) have "expiring e1 r residue = expiring e2 r residue"
    by (rule expiring_same_clock)
  with alt have "check_eu_compliance e1 r residue = check_eu_compliance e2 r residue"
    by (simp add: check_eu_compliance_def)
  with Cons q2 show ?thesis
    by (simp add: check_compliance_found)
qed

text \<open>
  The two environments of the witness hold different tables: the second has one more
  row in front, for another substance.
\<close>

theorem C3_determined_by_inputs_witness:
  "first_row (query_rows (sample_env (midnight 2026 11 4)) ''mango'' ''Lambda-cyhalothrin'') =
     first_row (query_rows
       ((sample_env (midnight 2026 11 4))\<lparr>pesticide_mrl := mancozeb # sample_rows\<rparr>)
       ''mango'' ''Lambda-cyhalothrin'')
   \<and> check_compliance (sample_env (midnight 2026 11 4)) ''mango'' ''Lambda-cyhalothrin'' ''EU''
        (Some (Finite (1 / 10))) =
     check_compliance ((sample_env (midnight 2026 11 4))\<lparr>pesticide_mrl := mancozeb # sample_rows\<rparr>)
        ''mango'' ''Lambda-cyhalothrin'' ''EU'' (Some (Finite (1 / 10)))"
proof -
  let ?e1 = "sample_env (midnight 2026 11 4)"
  let ?e2 = "(sample_env (midnight 2026 11 4))\<lparr>pesticide_mrl := mancozeb # sample_rows\<rparr>"
  have q1: "query_rows ?e1 ''mango'' ''Lambda-cyhalothrin'' = [lambda_cyhalothrin]"
    by (simp add: sample_defs string_defs query_rows_def)
  have q2: "query_rows ?e2 ''mango'' ''Lambda-cyhalothrin'' = [lambda_cyhalothrin]"
    by (simp add: sample_defs string_defs query_rows_def)
  have h1: "first_row (query_rows ?e1 ''mango'' ''Lambda-cyhalothrin'') =
            first_row (query_rows ?e2 ''mango'' ''Lambda-cyhalothrin'')"
    by (simp only: q1 q2)
  have h2: "now ?e1 = now ?e2"
    by (simp add: sample_env_def)
  have h3: "fromisoformat ?e1 = fromisoformat ?e2"
    by (simp add: sample_env_def)
  have a1: "find_alternatives ?e1 (row_crop lambda_cyhalothrin)
              (row_pesticide_type lambda_cyhalothrin) = [''Lambda-cyhalothrin'']"
    by (simp add: sample_defs string_defs find_alternatives_def find_alternatives_traced_def)
  have a2: "find_alternatives ?e2 (row_crop lambda_cyhalothrin)
              (row_pesticide_type lambda_cyhalothrin) = [''Lambda-cyhalothrin'']"
    by (simp add: sample_defs string_defs find_alternatives_def find_alternatives_traced_def)
  have h4: "\<forall>r. first_row (query_rows ?e1 ''mango'' ''Lambda-cyhalothrin'') = Some r \<longrightarrow>
              find_alternatives ?e1 (row_crop r) (row_pesticide_type r) =
              find_alternatives ?e2 (row_crop r) (row_pesticide_type r)"
    by (simp add: q1 first_row_def a1 a2)
  from C3_determined_by_inputs [OF h1 h2 h3 h4] h1 show ?thesis
    by blast
qed

subsection \<open>C4: the residue comparison is strict\<close>

text \<open>
  C4: for every record with a limit for the market evaluated and a supplied residue
  level, on the EU branch once the non-approval rule and the expiry rule have not
  answered, and on the Codex branch: a residue strictly greater than the limit gives
  NON_COMPLIANT with severity MAJOR, and a residue less than or equal to the limit,
  equality included, gives COMPLIANT with severity INFO.
\<close>

theorem C4_strict_comparison:
  assumes "query_rows e c s = r # rest"
    and "(upper market = ''EU'' \<and> \<not> not_approved r \<and> expiring e r (Some x) = None
            \<and> row_mrl_eu r = Some limit)
         \<or> (upper market = ''CODEX'' \<and> row_mrl_codex r = Some limit)"
  shows "(float_gt x limit \<longrightarrow>
            verdict (check_compliance e c s market (Some x)) = Some (''NON_COMPLIANT'', ''MAJOR''))
       \<and> (float_le x limit \<longrightarrow>
            verdict (check_compliance e c s market (Some x)) = Some (''COMPLIANT'', ''INFO''))"
  using assms(2)
proof
  assume eu: "upper market = ''EU'' \<and> \<not> not_approved r \<and> expiring e r (Some x) = None
                \<and> row_mrl_eu r = Some limit"
  then have "check_compliance e c s market (Some x) = Inr (eu_residue r (Some x))"
    using assms(1) by (simp add: check_compliance_found check_eu_compliance_def)
  with eu show ?thesis
    using float_le_not_gt [of x limit] by (auto simp: verdict_def eu_residue_def)
next
  assume cx: "upper market = ''CODEX'' \<and> row_mrl_codex r = Some limit"
  then have "check_compliance e c s market (Some x) = Inr (check_codex_compliance r (Some x))"
    using assms(1) by (simp add: check_compliance_found)
  with cx show ?thesis
    using float_le_not_gt [of x limit] by (auto simp: verdict_def check_codex_compliance_def)
qed

text \<open>
  The witness takes the EU branch at equality: a residue of 5 mg/kg against the limit of
  5 mg/kg is compliant.
\<close>

theorem C4_strict_comparison_witness:
  "query_rows (sample_env (midnight 2026 11 4)) ''mango'' ''azoxystrobin'' = [azoxystrobin]
   \<and> upper ''EU'' = ''EU'' \<and> \<not> not_approved azoxystrobin
   \<and> expiring (sample_env (midnight 2026 11 4)) azoxystrobin (Some (Finite 5)) = None
   \<and> row_mrl_eu azoxystrobin = Some (Finite 5)
   \<and> float_le (Finite 5) (Finite 5)
   \<and> verdict (check_compliance (sample_env (midnight 2026 11 4)) ''mango'' ''azoxystrobin'' ''EU''
        (Some (Finite 5))) = Some (''COMPLIANT'', ''INFO'')"
proof -
  let ?e = "sample_env (midnight 2026 11 4)"
  have q: "query_rows ?e ''mango'' ''azoxystrobin'' = [azoxystrobin]"
    by (simp add: sample_defs string_defs query_rows_def)
  have u: "upper ''EU'' = ''EU''"
    by (simp add: string_defs)
  have na: "\<not> not_approved azoxystrobin"
    by (simp add: sample_defs string_defs not_approved_def)
  have ex: "expiring ?e azoxystrobin (Some (Finite 5)) = None"
    by (simp add: sample_defs expiring_def)
  have l: "row_mrl_eu azoxystrobin = Some (Finite 5)"
    by (simp add: sample_defs)
  have le: "float_le (Finite 5) (Finite 5)"
    by simp
  have h: "(upper ''EU'' = ''EU'' \<and> \<not> not_approved azoxystrobin
             \<and> expiring ?e azoxystrobin (Some (Finite 5)) = None
             \<and> row_mrl_eu azoxystrobin = Some (Finite 5))
           \<or> (upper ''EU'' = ''CODEX'' \<and> row_mrl_codex azoxystrobin = Some (Finite 5))"
    using u na ex l by blast
  from C4_strict_comparison [OF q h] le q u na ex l show ?thesis
    by blast
qed

subsection \<open>C5: an unsupported market\<close>

text \<open>
  C5, as stated, makes the call fail for an unsupported market whatever the crop and the
  substance are. The source looks the record up first and answers UNKNOWN when there is
  none, before it looks at the market.
\<close>

theorem C5_absent_record_counterexample:
  "upper ''FR'' \<noteq> ''EU'' \<and> upper ''FR'' \<noteq> ''CODEX''
   \<and> query_rows (sample_env (midnight 2026 11 4)) ''tomato'' ''Unknownicide'' = []
   \<and> verdict (check_compliance (sample_env (midnight 2026 11 4)) ''tomato'' ''Unknownicide'' ''FR''
        None) = Some (''UNKNOWN'', ''INFO'')"
  by (simp add: sample_defs string_defs checker_defs)

text \<open>
  C5, amended: for every crop and substance that have a matching record, and every
  optional residue level, a target market that is neither "EU" nor "Codex" up to case
  makes the call raise the validation error (a \<^verbatim>\<open>ValueError\<close>) instead of returning a
  result.
\<close>

theorem C5_unsupported_market_raises:
  assumes "query_rows e c s = r # rest"
    and "upper market \<noteq> ''EU''"
    and "upper market \<noteq> ''CODEX''"
  shows "check_compliance e c s market residue = Inl (ValueError market)"
  using assms by (simp add: check_compliance_found)

theorem C5_unsupported_market_raises_witness:
  "query_rows (sample_env (midnight 2026 11 4)) ''mango'' ''azoxystrobin'' = [azoxystrobin]
   \<and> upper ''FR'' \<noteq> ''EU'' \<and> upper ''FR'' \<noteq> ''CODEX''
   \<and> check_compliance (sample_env (midnight 2026 11 4)) ''mango'' ''azoxystrobin'' ''FR''
        (Some (Finite 2)) = Inl (ValueError ''FR'')"
proof -
  have q: "query_rows (sample_env (midnight 2026 11 4)) ''mango'' ''azoxystrobin'' = [azoxystrobin]"
    by (simp add: sample_defs string_defs query_rows_def)
  have u1: "upper ''FR'' \<noteq> ''EU''"
    by (simp add: string_defs)
  have u2: "upper ''FR'' \<noteq> ''CODEX''"
    by (simp add: string_defs)
  from C5_unsupported_market_raises [OF q u1 u2, of "Some (Finite 2)"] q u1 u2 show ?thesis
    by blast
qed

subsection \<open>C6: the Codex branch does not look at the EU status\<close>

text \<open>
  C6, as stated, gives every record with a Codex limit a COMPLIANT or NON_COMPLIANT
  verdict. Without a residue level there is nothing to compare, and the source answers
  INFO with severity INFO.
\<close>

theorem C6_no_residue_counterexample:
  "query_rows (sample_env (midnight 2026 11 4)) ''mango'' ''Azoxystrobin'' = [azoxystrobin]
   \<and> row_mrl_codex azoxystrobin = Some (Finite (7 / 10))
   \<and> verdict (check_compliance (sample_env (midnight 2026 11 4)) ''mango'' ''Azoxystrobin''
        ''Codex'' None) = Some (''INFO'', ''INFO'')"
  by (simp add: sample_defs string_defs checker_defs)

text \<open>
  C6, amended: for every record with a Codex limit, a call for market Codex with a
  supplied residue level returns NON_COMPLIANT with severity MAJOR or COMPLIANT with
  severity INFO, as the residue comparison alone decides (and INFO with severity INFO
  when no residue level is supplied); it never returns severity CRITICAL, whatever the
  EU status of the record is; and every result of the Codex branch echoes the EU status
  of the record.
\<close>

theorem C6_codex_ignores_eu_status:
  assumes "query_rows e c s = r # rest"
    and "upper market = ''CODEX''"
  shows "\<exists>res. check_compliance e c s market residue = Inr res
           \<and> eu_status res = row_eu_status r
           \<and> severity res \<noteq> ''CRITICAL''
           \<and> (\<forall>limit. row_mrl_codex r = Some limit \<longrightarrow>
                 (status res, severity res) =
                   (case residue of
                      None \<Rightarrow> (''INFO'', ''INFO'')
                    | Some x \<Rightarrow> if float_gt x limit then (''NON_COMPLIANT'', ''MAJOR'')
                                else (''COMPLIANT'', ''INFO'')))"
proof -
  from assms have "check_compliance e c s market residue = Inr (check_codex_compliance r residue)"
    by (simp add: check_compliance_found)
  then show ?thesis
    by (simp add: check_codex_compliance_def split: option.splits)
qed

text \<open>
  The witness is a record that the EU branch blocks (its status is "Non reprise dans la
  liste") and that has a Codex limit of 0.5 mg/kg.
\<close>

theorem C6_codex_ignores_eu_status_witness:
  "query_rows (sample_env (midnight 2026 11 4)) ''mango'' ''carbendazim'' = [carbendazim]
   \<and> upper ''Codex'' = ''CODEX''
   \<and> not_approved carbendazim
   \<and> (\<exists>res. check_compliance (sample_env (midnight 2026 11 4)) ''mango'' ''carbendazim''
               ''Codex'' (Some (Finite (1 / 4))) = Inr res
           \<and> eu_status res = Some non_reprise
           \<and> severity res \<noteq> ''CRITICAL''
           \<and> (status res, severity res) = (''COMPLIANT'', ''INFO''))"
proof -
  let ?e = "sample_env (midnight 2026 11 4)"
  have q: "query_rows ?e ''mango'' ''carbendazim'' = [carbendazim]"
    by (simp add: sample_defs string_defs query_rows_def)
  have u: "upper ''Codex'' = ''CODEX''"
    by (simp add: string_defs)
  have na: "not_approved carbendazim"
    by (simp add: sample_defs not_approved_def)
  have st: "row_eu_status carbendazim = Some non_reprise"
    by (simp add: sample_defs)
  have l: "row_mrl_codex carbendazim = Some (Finite (1 / 2))"
    by (simp add: sample_defs)
  from C6_codex_ignores_eu_status [OF q u, of "Some (Finite (1 / 4))"]
  obtain res where
    "check_compliance ?e ''mango'' ''carbendazim'' ''Codex'' (Some (Finite (1 / 4))) = Inr res"
    "eu_status res = row_eu_status carbendazim"
    "severity res \<noteq> ''CRITICAL''"
    "\<forall>limit. row_mrl_codex carbendazim = Some limit \<longrightarrow>
       (status res, severity res) =
         (case Some (Finite (1 / 4)) of
            None \<Rightarrow> (''INFO'', ''INFO'')
          | Some x \<Rightarrow> if float_gt x limit then (''NON_COMPLIANT'', ''MAJOR'')
                      else (''COMPLIANT'', ''INFO''))"
    by blast
  with st l have
    "check_compliance ?e ''mango'' ''carbendazim'' ''Codex'' (Some (Finite (1 / 4))) = Inr res
     \<and> eu_status res = Some non_reprise \<and> severity res \<noteq> ''CRITICAL''
     \<and> (status res, severity res) = (''COMPLIANT'', ''INFO'')"
    by simp
  with q u na show ?thesis
    by blast
qed

subsection \<open>C7: no Codex limit\<close>

text \<open>
  C7: for every record without a Codex limit, a call for market Codex returns UNKNOWN
  with severity INFO, whatever residue level is supplied; the GAP recommendations are
  present and each of their eight entries is the value of the record's column (dose,
  applications, interval, the two pre-harvest intervals, WHO class, pesticide type and
  resistance group; an empty column gives an empty entry), the limit and its flag are
  absent, and the references are the database and Codex Alimentarius.
\<close>

theorem C7_no_codex_limit:
  assumes "query_rows e c s = r # rest"
    and "upper market = ''CODEX''"
    and "row_mrl_codex r = None"
  shows "\<exists>res. check_compliance e c s market residue = Inr res
           \<and> status res = ''UNKNOWN'' \<and> severity res = ''INFO''
           \<and> gap_recommendations res =
               Some \<lparr>gap_dose = row_dose r,
                     gap_max_applications = row_max_applications r,
                     gap_interval_days = row_interval_days r,
                     gap_preharvest_interval_eu = row_preharvest_eu r,
                     gap_preharvest_interval_codex = row_preharvest_codex r,
                     gap_who_toxicity_class = row_who_class r,
                     gap_pesticide_type = row_pesticide_type r,
                     gap_resistance_group = row_resistance_group r\<rparr>
           \<and> mrl_limit res = None \<and> mrl_flag res = None
           \<and> references res = [''COLEAD GAP Database'', ''Codex Alimentarius'']"
proof -
  from assms(1,2)
  have "check_compliance e c s market residue = Inr (check_codex_compliance r residue)"
    by (simp add: check_compliance_found)
  with assms(3) show ?thesis
    by (simp add: check_codex_compliance_def extract_gap_def)
qed

text \<open>
  The witness is a record with GAP columns and no Codex limit, asked with a residue
  level: the recommendations carry the values of the columns.
\<close>

theorem C7_no_codex_limit_witness:
  "query_rows (sample_env (midnight 2026 11 4)) ''papaya'' ''thiabendazole'' = [thiabendazole]
   \<and> upper ''codex'' = ''CODEX''
   \<and> row_mrl_codex thiabendazole = None
   \<and> (\<exists>res. check_compliance (sample_env (midnight 2026 11 4)) ''papaya'' ''thiabendazole''
               ''codex'' (Some (Finite 3)) = Inr res
           \<and> status res = ''UNKNOWN'' \<and> severity res = ''INFO''
           \<and> gap_recommendations res =
               Some \<lparr>gap_dose = Some (JString ''0.5 kg/ha''),
                     gap_max_applications = Some (JNumber 2),
                     gap_interval_days = Some (JNumber 14),
                     gap_preharvest_interval_eu = Some (JNumber 7),
                     gap_preharvest_interval_codex = None,
                     gap_who_toxicity_class = Some (JString ''III''),
                     gap_pesticide_type = Some ''Fongicide'',
                     gap_resistance_group = Some (JString ''1'')\<rparr>
           \<and> mrl_limit res = None \<and> mrl_flag res = None
           \<and> references res = [''COLEAD GAP Database'', ''Codex Alimentarius''])"
proof -
  let ?e = "sample_env (midnight 2026 11 4)"
  have q: "query_rows ?e ''papaya'' ''thiabendazole'' = [thiabendazole]"
    by (simp add: sample_defs string_defs query_rows_def)
  have u: "upper ''codex'' = ''CODEX''"
    by (simp add: string_defs)
  have l: "row_mrl_codex thiabendazole = None"
    by (simp add: thiabendazole_def sample_row_def)
  have columns:
    "row_dose thiabendazole = Some (JString ''0.5 kg/ha'')"
    "row_max_applications thiabendazole = Some (JNumber 2)"
    "row_interval_days thiabendazole = Some (JNumber 14)"
    "row_preharvest_eu thiabendazole = Some (JNumber 7)"
    "row_preharvest_codex thiabendazole = None"
    "row_who_class thiabendazole = Some (JString ''III'')"
    "row_pesticide_type thiabendazole = Some ''Fongicide''"
    "row_resistance_group thiabendazole = Some (JString ''1'')"
    by (simp_all add: thiabendazole_def sample_row_def)
  note found = C7_no_codex_limit [OF q u l, of "Some (Finite 3)", unfolded columns]
  from q u l found show ?thesis
    by (intro conjI)
qed

subsection \<open>C8: the expiry rule\<close>

text \<open>
  C8, as stated, speaks of every record on the EU branch. The non-approval rule comes
  first: a record that is not approved is answered NON_COMPLIANT with severity CRITICAL
  whether its expiration date parses and lies 27 days ahead (the first record below) or
  does not parse (the second), so neither WARNING nor the residue comparison is reached.
\<close>

theorem C8_rule_order_counterexample:
  "query_rows (sample_env (midnight 2026 11 4)) ''mango'' ''Alpha-cypermethrin'' =
     [alpha_cypermethrin]
   \<and> row_eu_expiration alpha_cypermethrin = Some ''2026-12-01''
   \<and> fromisoformat (sample_env (midnight 2026 11 4)) ''2026-12-01'' =
       Some (Naive (midnight 2026 12 1))
   \<and> days_until_now (Naive (midnight 2026 12 1)) (now (sample_env (midnight 2026 11 4))) = Some 27
   \<and> verdict (check_compliance (sample_env (midnight 2026 11 4)) ''mango'' ''Alpha-cypermethrin''
        ''EU'' None) = Some (''NON_COMPLIANT'', ''CRITICAL'')
   \<and> query_rows (sample_env (midnight 2026 11 4)) ''mango'' ''Carbendazim'' = [carbendazim]
   \<and> row_eu_expiration carbendazim = Some ''end of 2026''
   \<and> fromisoformat (sample_env (midnight 2026 11 4)) ''end of 2026'' = None
   \<and> verdict (check_compliance (sample_env (midnight 2026 11 4)) ''mango'' ''Carbendazim''
        ''EU'' None) = Some (''NON_COMPLIANT'', ''CRITICAL'')"
  by (simp add: sample_defs string_defs checker_defs date_defs)

text \<open>
  C8, amended: on the EU branch, for every record that the non-approval rule does not
  answer: when the expiration date is present but fails to parse, the expiry rule is
  skipped and the call returns the result of the residue comparison or of the
  informational fallback instead of failing; when the date is present and not empty,
  parses to a naive date and time, and lies strictly fewer than 180 days from now (in
  whole days, rounded down), the result is WARNING with severity MAJOR.
\<close>

theorem C8_expiry_rule:
  assumes "query_rows e c s = r # rest"
    and "upper market = ''EU''"
    and "\<not> not_approved r"
    and "row_eu_expiration r = Some txt"
  shows "(fromisoformat e txt = None \<longrightarrow>
            check_compliance e c s market residue = Inr (eu_residue r residue)
            \<and> verdict (check_compliance e c s market residue) \<in>
                {Some (''NON_COMPLIANT'', ''MAJOR''), Some (''COMPLIANT'', ''INFO''),
                 Some (''INFO'', ''INFO'')})
       \<and> (\<forall>t. txt \<noteq> [] \<and> fromisoformat e txt = Some (Naive t)
                \<and> (t - now e) div us_per_day < 180 \<longrightarrow>
              verdict (check_compliance e c s market residue) = Some (''WARNING'', ''MAJOR''))"
proof -
  from assms(1,2,3)
  have eq: "check_compliance e c s market residue =
              Inr (case expiring e r residue of Some res \<Rightarrow> res | None \<Rightarrow> eu_residue r residue)"
    by (simp add: check_compliance_found check_eu_compliance_def)
  have skipped: "fromisoformat e txt = None \<Longrightarrow> expiring e r residue = None"
    using assms(4) by (simp add: expiring_def)
  have range: "(status (eu_residue r residue), severity (eu_residue r residue)) \<in>
                 {(''NON_COMPLIANT'', ''MAJOR''), (''COMPLIANT'', ''INFO''), (''INFO'', ''INFO'')}"
    by (simp add: eu_residue_def split: option.splits)
  have fired: "txt \<noteq> [] \<Longrightarrow> fromisoformat e txt = Some (Naive t) \<Longrightarrow>
                 (t - now e) div us_per_day < 180 \<Longrightarrow>
               \<exists>res. expiring e r residue = Some res
                 \<and> status res = ''WARNING'' \<and> severity res = ''MAJOR''" for t
    using assms(4) by (simp add: expiring_def)
  show ?thesis
  proof (intro conjI impI allI)
    assume "fromisoformat e txt = None"
    with eq skipped show "check_compliance e c s market residue = Inr (eu_residue r residue)"
      by simp
  next
    assume "fromisoformat e txt = None"
    with eq skipped have "check_compliance e c s market residue = Inr (eu_residue r residue)"
      by simp
    with range show "verdict (check_compliance e c s market residue) \<in>
        {Some (''NON_COMPLIANT'', ''MAJOR''), Some (''COMPLIANT'', ''INFO''),
         Some (''INFO'', ''INFO'')}"
      by (auto simp: verdict_def)
  next
    fix t
    assume "txt \<noteq> [] \<and> fromisoformat e txt = Some (Naive t)
              \<and> (t - now e) div us_per_day < 180"
    with fired [of t] obtain res where
      "expiring e r residue = Some res" "status res = ''WARNING''" "severity res = ''MAJOR''"
      by blast
    with eq show "verdict (check_compliance e c s market residue) = Some (''WARNING'', ''MAJOR'')"
      by (simp add: verdict_def)
  qed
qed

text \<open>
  The witness has both cases: an approved record whose approval ends in 27 days, and an
  approved record whose expiration text is no date.
\<close>

theorem C8_expiry_rule_witness:
  "query_rows (sample_env (midnight 2026 11 4)) ''mango'' ''lambda-cyhalothrin'' =
     [lambda_cyhalothrin]
   \<and> upper ''EU'' = ''EU'' \<and> \<not> not_approved lambda_cyhalothrin
   \<and> row_eu_expiration lambda_cyhalothrin = Some ''2026-12-01''
   \<and> fromisoformat (sample_env (midnight 2026 11 4)) ''2026-12-01'' =
       Some (Naive (midnight 2026 12 1))
   \<and> (midnight 2026 12 1 - now (sample_env (midnight 2026 11 4))) div us_per_day < 180
   \<and> verdict (check_compliance (sample_env (midnight 2026 11 4)) ''mango'' ''lambda-cyhalothrin''
        ''EU'' (Some (Finite 9))) = Some (''WARNING'', ''MAJOR'')
   \<and> query_rows (sample_env (midnight 2026 11 4)) ''tomato'' ''mancozeb'' = [mancozeb]
   \<and> \<not> not_approved mancozeb
   \<and> row_eu_expiration mancozeb = Some ''end of 2026''
   \<and> fromisoformat (sample_env (midnight 2026 11 4)) ''end of 2026'' = None
   \<and> check_compliance (sample_env (midnight 2026 11 4)) ''tomato'' ''mancozeb'' ''EU''
        (Some (Finite 9)) = Inr (eu_residue mancozeb (Some (Finite 9)))
   \<and> status (eu_residue mancozeb (Some (Finite 9))) = ''NON_COMPLIANT''"
proof -
  let ?e = "sample_env (midnight 2026 11 4)"
  have q1: "query_rows ?e ''mango'' ''lambda-cyhalothrin'' = [lambda_cyhalothrin]"
    by (simp add: sample_defs string_defs query_rows_def)
  have u: "upper ''EU'' = ''EU''"
    by (simp add: string_defs)
  have n1: "\<not> not_approved lambda_cyhalothrin"
    by (simp add: sample_defs string_defs not_approved_def)
  have x1: "row_eu_expiration lambda_cyhalothrin = Some ''2026-12-01''"
    by (simp add: sample_defs)
  have p1: "fromisoformat ?e ''2026-12-01'' = Some (Naive (midnight 2026 12 1))"
    by (simp add: sample_env_def parse_ymd_def digit_val_def days_in_month_def is_leap_def)
  have d1: "(midnight 2026 12 1 - now ?e) div us_per_day < 180"
    by (simp add: sample_env_def date_defs)
  have ne: "''2026-12-01'' \<noteq> []"
    by simp
  have q2: "query_rows ?e ''tomato'' ''mancozeb'' = [mancozeb]"
    by (simp add: sample_defs string_defs query_rows_def)
  have n2: "\<not> not_approved mancozeb"
    by (simp add: sample_defs string_defs not_approved_def)
  have x2: "row_eu_expiration mancozeb = Some ''end of 2026''"
    by (simp add: sample_defs)
  have p2: "fromisoformat ?e ''end of 2026'' = None"
    by (simp add: sample_env_def parse_ymd_def digit_val_def)
  have s2: "status (eu_residue mancozeb (Some (Finite 9))) = ''NON_COMPLIANT''"
    by (simp add: sample_defs eu_residue_def)
  from C8_expiry_rule [OF q1 u n1 x1, of "Some (Finite 9)"] ne p1 d1
  have w: "verdict (check_compliance ?e ''mango'' ''lambda-cyhalothrin'' ''EU''
             (Some (Finite 9))) = Some (''WARNING'', ''MAJOR'')"
    by blast
  from C8_expiry_rule [OF q2 u n2 x2, of "Some (Finite 9)"] p2
  have f: "check_compliance ?e ''tomato'' ''mancozeb'' ''EU'' (Some (Finite 9)) =
             Inr (eu_residue mancozeb (Some (Finite 9)))"
    by blast
  from q1 u n1 x1 p1 d1 w q2 n2 x2 p2 f s2 show ?thesis
    by blast
qed

subsection \<open>C9: the alternatives query\<close>

text \<open>
  C9: \<^verbatim>\<open>_find_alternatives\<close> returns the empty list, without a query to the store, when
  the pesticide type is absent or empty. In every case it returns at most 5 names, and
  each of them is the active substance of a row of the table for the same crop (up to
  case), with the approved EU status, whose pesticide type contains the given type up to
  case.
\<close>

theorem C9_find_alternatives:
  "(pt = None \<or> pt = Some [] \<longrightarrow> find_alternatives_traced e c pt = ([], 0))
   \<and> length (find_alternatives e c pt) \<le> 5
   \<and> (\<forall>n \<in> set (find_alternatives e c pt).
         \<exists>t r ty pre suf.
           pt = Some t \<and> r \<in> set (pesticide_mrl e) \<and> n = row_active_substance r
           \<and> lower (row_crop r) = lower c
           \<and> row_eu_status r = Some approuvee
           \<and> row_pesticide_type r = Some ty \<and> lower ty = pre @ lower t @ suf)"
proof (intro conjI ballI impI)
  assume "pt = None \<or> pt = Some []"
  then show "find_alternatives_traced e c pt = ([], 0)"
    by (auto simp: find_alternatives_traced_def)
next
  show "length (find_alternatives e c pt) \<le> 5"
    by (simp add: find_alternatives_def find_alternatives_traced_def split: option.splits)
next
  fix n
  assume n: "n \<in> set (find_alternatives e c pt)"
  then obtain t where t: "pt = Some t" "t \<noteq> []"
    by (cases pt) (auto simp: find_alternatives_def find_alternatives_traced_def split: if_splits)
  let ?match = "\<lambda>r. ilike (row_crop r) c \<and> ilike_contains (row_pesticide_type r) t
                      \<and> row_eu_status r = Some approuvee"
  from n t have "n \<in> row_active_substance ` set (take 5 (filter ?match (pesticide_mrl e)))"
    by (simp add: find_alternatives_def find_alternatives_traced_def)
  then obtain r where r: "r \<in> set (take 5 (filter ?match (pesticide_mrl e)))"
      and nr: "n = row_active_substance r"
    by blast
  from r have "r \<in> set (filter ?match (pesticide_mrl e))"
    by (rule in_set_takeD)
  then have mem: "r \<in> set (pesticide_mrl e)" and m: "?match r"
    by simp_all
  from m obtain ty where ty: "row_pesticide_type r = Some ty"
      and sub: "contains (lower ty) (lower t)"
    by (cases "row_pesticide_type r") auto
  from sub obtain pre suf where "lower ty = pre @ lower t @ suf"
    by (auto simp: contains_iff)
  with t mem nr m ty
  show "\<exists>t r ty pre suf.
          pt = Some t \<and> r \<in> set (pesticide_mrl e) \<and> n = row_active_substance r
          \<and> lower (row_crop r) = lower c
          \<and> row_eu_status r = Some approuvee
          \<and> row_pesticide_type r = Some ty \<and> lower ty = pre @ lower t @ suf"
    by (auto simp: ilike_def)
qed

text \<open>
  The witness asks for the insecticides approved on mango: of the three insecticides of
  the sample table only one has the approved status. With an empty type no query is
  sent.
\<close>

theorem C9_find_alternatives_witness:
  "find_alternatives_traced (sample_env (midnight 2026 11 4)) ''MANGO'' (Some []) = ([], 0)
   \<and> find_alternatives (sample_env (midnight 2026 11 4)) ''MANGO'' (Some ''insect'') =
       [''Lambda-cyhalothrin'']
   \<and> length (find_alternatives (sample_env (midnight 2026 11 4)) ''MANGO'' (Some ''insect'')) \<le> 5
   \<and> (\<exists>t r ty pre suf.
         Some ''insect'' = Some t
         \<and> r \<in> set (pesticide_mrl (sample_env (midnight 2026 11 4)))
         \<and> ''Lambda-cyhalothrin'' = row_active_substance r
         \<and> lower (row_crop r) = lower ''MANGO''
         \<and> row_eu_status r = Some approuvee
         \<and> row_pesticide_type r = Some ty \<and> lower ty = pre @ lower t @ suf)"
proof -
  let ?e = "sample_env (midnight 2026 11 4)"
  have v: "find_alternatives ?e ''MANGO'' (Some ''insect'') = [''Lambda-cyhalothrin'']"
    by (simp add: sample_defs string_defs find_alternatives_def find_alternatives_traced_def)
  then have m: "''Lambda-cyhalothrin'' \<in> set (find_alternatives ?e ''MANGO'' (Some ''insect''))"
    by simp
  from C9_find_alternatives [of "Some []" ?e "''MANGO''"]
  have a: "find_alternatives_traced ?e ''MANGO'' (Some []) = ([], 0)"
    by blast
  from C9_find_alternatives [of "Some ''insect''" ?e "''MANGO''"] m
  have b: "length (find_alternatives ?e ''MANGO'' (Some ''insect'')) \<le> 5
     \<and> (\<exists>t r ty pre suf.
         Some ''insect'' = Some t
         \<and> r \<in> set (pesticide_mrl ?e)
         \<and> ''Lambda-cyhalothrin'' = row_active_substance r
         \<and> lower (row_crop r) = lower ''MANGO''
         \<and> row_eu_status r = Some approuvee
         \<and> row_pesticide_type r = Some ty \<and> lower ty = pre @ lower t @ suf)"
    by blast
  from a v b show ?thesis
    by blast
qed

subsection \<open>C10: the verdicts that a call can return\<close>

lemma check_compliance_pair:
  assumes "check_compliance e c s market residue = Inr res"
  shows "(status res, severity res) \<in>
     {(''NON_COMPLIANT'', ''CRITICAL''), (''NON_COMPLIANT'', ''MAJOR''), (''WARNING'', ''MAJOR''),
      (''COMPLIANT'', ''INFO''), (''INFO'', ''INFO''), (''UNKNOWN'', ''INFO'')}"
proof -
  from check_compliance_returns [OF assms]
  consider "res = create_unknown_result c s market residue"
    | r where "res = check_eu_compliance e r residue"
    | r where "res = check_codex_compliance r residue"
    by (elim disjE exE)
  then show ?thesis
  proof cases
    case 1
    have "(status res, severity res) = (''UNKNOWN'', ''INFO'')"
      unfolding 1 by (rule unknown_result_pair)
    then show ?thesis
      by (simp only: insert_iff simp_thms)
  next
    case 2
    from check_eu_pair [of e r residue] show ?thesis
      unfolding 2 by (simp only: insert_iff empty_iff simp_thms) (elim disjE, simp_all only: simp_thms)
  next
    case 3
    from check_codex_pair [of r residue] show ?thesis
      unfolding 3 by (simp only: insert_iff empty_iff simp_thms) (elim disjE, simp_all only: simp_thms)
  qed
qed

lemma check_compliance_references:
  assumes "check_compliance e c s market residue = Inr res"
  shows "\<exists>more. references res = ''COLEAD GAP Database'' # more"
proof -
  from check_compliance_returns [OF assms]
  consider "res = create_unknown_result c s market residue"
    | r where "res = check_eu_compliance e r residue"
    | r where "res = check_codex_compliance r residue"
    by (elim disjE exE)
  then show ?thesis
  proof cases
    case 1
    show ?thesis
      unfolding 1 by (simp add: create_unknown_result_def)
  next
    case 2
    from check_eu_references [of e r residue] show ?thesis
      unfolding 2 by (simp only: insert_iff empty_iff simp_thms) (elim disjE, simp_all)
  next
    case 3
    show ?thesis
      unfolding 3 by (simp add: check_codex_references)
  qed
qed

text \<open>
  C10: the pairs of status and severity that calls return are exactly the six pairs
  below: each of them is returned by some call, and no call returns another one. So no
  result has severity MINOR, and the statuses UNKNOWN, COMPLIANT and INFO always come
  with severity INFO. The references of every result are a non-empty list whose first
  element is "COLEAD GAP Database".
\<close>

theorem C10_verdict_pairs:
  "{v. \<exists>e c s market residue. verdict (check_compliance e c s market residue) = Some v} =
     {(''NON_COMPLIANT'', ''CRITICAL''), (''NON_COMPLIANT'', ''MAJOR''), (''WARNING'', ''MAJOR''),
      (''COMPLIANT'', ''INFO''), (''INFO'', ''INFO''), (''UNKNOWN'', ''INFO'')}
   \<and> (\<forall>e c s market residue res.
         check_compliance e c s market residue = Inr res \<longrightarrow>
           severity res \<noteq> ''MINOR''
           \<and> (status res \<in> {''UNKNOWN'', ''COMPLIANT'', ''INFO''} \<longrightarrow> severity res = ''INFO'')
           \<and> references res \<noteq> []
           \<and> hd (references res) = ''COLEAD GAP Database'')"
proof (rule conjI)
  let ?e = "sample_env (midnight 2026 11 4)"
  let ?returned = "{v. \<exists>e c s market residue.
                        verdict (check_compliance e c s market residue) = Some v}"
  have r1: "verdict (check_compliance ?e ''mango'' ''Alpha-cypermethrin'' ''EU'' None) =
              Some (''NON_COMPLIANT'', ''CRITICAL'')"
    by (simp add: sample_defs string_defs checker_defs)
  have r2: "verdict (check_compliance ?e ''mango'' ''Azoxystrobin'' ''EU'' (Some (Finite 6))) =
              Some (''NON_COMPLIANT'', ''MAJOR'')"
    by (simp add: sample_defs string_defs checker_defs)
  have r3: "verdict (check_compliance ?e ''mango'' ''Lambda-cyhalothrin'' ''EU'' None) =
              Some (''WARNING'', ''MAJOR'')"
    by (simp add: sample_defs string_defs checker_defs date_defs)
  have r4: "verdict (check_compliance ?e ''mango'' ''Azoxystrobin'' ''EU'' (Some (Finite 2))) =
              Some (''COMPLIANT'', ''INFO'')"
    by (simp add: sample_defs string_defs checker_defs)
  have r5: "verdict (check_compliance ?e ''mango'' ''Azoxystrobin'' ''EU'' None) =
              Some (''INFO'', ''INFO'')"
    by (simp add: sample_defs string_defs checker_defs)
  have r6: "verdict (check_compliance ?e ''tomato'' ''Unknownicide'' ''EU'' None) =
              Some (''UNKNOWN'', ''INFO'')"
    by (simp add: sample_defs string_defs checker_defs)
  have m1: "(''NON_COMPLIANT'', ''CRITICAL'') \<in> ?returned"
    unfolding mem_Collect_eq by (intro exI) (rule r1)
  have m2: "(''NON_COMPLIANT'', ''MAJOR'') \<in> ?returned"
    unfolding mem_Collect_eq by (intro exI) (rule r2)
  have m3: "(''WARNING'', ''MAJOR'') \<in> ?returned"
    unfolding mem_Collect_eq by (intro exI) (rule r3)
  have m4: "(''COMPLIANT'', ''INFO'') \<in> ?returned"
    unfolding mem_Collect_eq by (intro exI) (rule r4)
  have m5: "(''INFO'', ''INFO'') \<in> ?returned"
    unfolding mem_Collect_eq by (intro exI) (rule r5)
  have m6: "(''UNKNOWN'', ''INFO'') \<in> ?returned"
    unfolding mem_Collect_eq by (intro exI) (rule r6)
  show "?returned =
     {(''NON_COMPLIANT'', ''CRITICAL''), (''NON_COMPLIANT'', ''MAJOR''), (''WARNING'', ''MAJOR''),
      (''COMPLIANT'', ''INFO''), (''INFO'', ''INFO''), (''UNKNOWN'', ''INFO'')}"
  proof (rule equalityI)
    show "?returned \<subseteq>
       {(''NON_COMPLIANT'', ''CRITICAL''), (''NON_COMPLIANT'', ''MAJOR''), (''WARNING'', ''MAJOR''),
        (''COMPLIANT'', ''INFO''), (''INFO'', ''INFO''), (''UNKNOWN'', ''INFO'')}"
    proof (rule subsetI)
      fix v
      assume "v \<in> ?returned"
      then obtain e c s market residue
        where v: "verdict (check_compliance e c s market residue) = Some v"
        unfolding mem_Collect_eq by (elim exE)
      show "v \<in> {(''NON_COMPLIANT'', ''CRITICAL''), (''NON_COMPLIANT'', ''MAJOR''),
                 (''WARNING'', ''MAJOR''), (''COMPLIANT'', ''INFO''), (''INFO'', ''INFO''),
                 (''UNKNOWN'', ''INFO'')}"
      proof (cases "check_compliance e c s market residue")
        case (Inl err)
        with v show ?thesis
          by (simp add: verdict_def)
      next
        case (Inr res)
        with v have "v = (status res, severity res)"
          by (simp add: verdict_def)
        with check_compliance_pair [OF Inr] show ?thesis
          by (simp only:)
      qed
    qed
  next
    from m1 m2 m3 m4 m5 m6
    show "{(''NON_COMPLIANT'', ''CRITICAL''), (''NON_COMPLIANT'', ''MAJOR''), (''WARNING'', ''MAJOR''),
           (''COMPLIANT'', ''INFO''), (''INFO'', ''INFO''), (''UNKNOWN'', ''INFO'')} \<subseteq> ?returned"
      by (intro insert_subsetI empty_subsetI)
  qed
next
  show "\<forall>e c s market residue res.
         check_compliance e c s market residue = Inr res \<longrightarrow>
           severity res \<noteq> ''MINOR''
           \<and> (status res \<in> {''UNKNOWN'', ''COMPLIANT'', ''INFO''} \<longrightarrow> severity res = ''INFO'')
           \<and> references res \<noteq> []
           \<and> hd (references res) = ''COLEAD GAP Database''"
  proof (intro allI impI)
    fix e c s market residue res
    assume ret: "check_compliance e c s market residue = Inr res"
    from check_compliance_references [OF ret]
    obtain more where refs: "references res = ''COLEAD GAP Database'' # more"
      by (elim exE)
    from check_compliance_pair [OF ret]
    have pair: "(status res = ''NON_COMPLIANT'' \<and> severity res = ''CRITICAL'')
        \<or> (status res = ''NON_COMPLIANT'' \<and> severity res = ''MAJOR'')
        \<or> (status res = ''WARNING'' \<and> severity res = ''MAJOR'')
        \<or> (status res = ''COMPLIANT'' \<and> severity res = ''INFO'')
        \<or> (status res = ''INFO'' \<and> severity res = ''INFO'')
        \<or> (status res = ''UNKNOWN'' \<and> severity res = ''INFO'')"
      by (simp only: insert_iff empty_iff prod.inject simp_thms)
    have minor: "severity res \<noteq> ''MINOR''"
      using pair by (elim disjE conjE) simp_all
    have info: "severity res = ''INFO''" if "status res \<in> {''UNKNOWN'', ''COMPLIANT'', ''INFO''}"
      using pair that by (elim disjE conjE) simp_all
    have nonempty: "references res \<noteq> []"
      by (simp add: refs)
    have first: "hd (references res) = ''COLEAD GAP Database''"
      by (simp add: refs)
    from minor info nonempty first
    show "severity res \<noteq> ''MINOR''
           \<and> (status res \<in> {''UNKNOWN'', ''COMPLIANT'', ''INFO''} \<longrightarrow> severity res = ''INFO'')
           \<and> references res \<noteq> []
           \<and> hd (references res) = ''COLEAD GAP Database''"
      by (intro conjI impI)
  qed
qed

text \<open>
  The witness is the compliant call of the sample table: its status is COMPLIANT, so its
  severity is INFO and not MINOR, and its references start with the database.
\<close>

theorem C10_verdict_pairs_witness:
  "check_compliance (sample_env (midnight 2026 11 4)) ''mango'' ''Azoxystrobin'' ''EU''
     (Some (Finite 2)) = Inr (check_eu_compliance (sample_env (midnight 2026 11 4)) azoxystrobin
                                (Some (Finite 2)))
   \<and> status (check_eu_compliance (sample_env (midnight 2026 11 4)) azoxystrobin
               (Some (Finite 2))) \<in> {''UNKNOWN'', ''COMPLIANT'', ''INFO''}
   \<and> severity (check_eu_compliance (sample_env (midnight 2026 11 4)) azoxystrobin
                 (Some (Finite 2))) = ''INFO''
   \<and> severity (check_eu_compliance (sample_env (midnight 2026 11 4)) azoxystrobin
                 (Some (Finite 2))) \<noteq> ''MINOR''
   \<and> references (check_eu_compliance (sample_env (midnight 2026 11 4)) azoxystrobin
                   (Some (Finite 2))) \<noteq> []
   \<and> hd (references (check_eu_compliance (sample_env (midnight 2026 11 4)) azoxystrobin
                       (Some (Finite 2)))) = ''COLEAD GAP Database''"
proof -
  let ?e = "sample_env (midnight 2026 11 4)"
  let ?res = "check_eu_compliance ?e azoxystrobin (Some (Finite 2))"
  have q: "query_rows ?e ''mango'' ''Azoxystrobin'' = [azoxystrobin]"
    by (simp add: sample_defs string_defs query_rows_def)
  have u: "upper ''EU'' = ''EU''"
    by (simp add: string_defs)
  have ret: "check_compliance ?e ''mango'' ''Azoxystrobin'' ''EU'' (Some (Finite 2)) = Inr ?res"
    using q u by (simp add: check_compliance_found)
  have st: "status ?res \<in> {''UNKNOWN'', ''COMPLIANT'', ''INFO''}"
    by (simp add: sample_defs string_defs check_eu_compliance_def not_approved_def
        expiring_def eu_residue_def)
  note all = C10_verdict_pairs [THEN conjunct2, rule_format, OF ret]
  from all have minor: "severity ?res \<noteq> ''MINOR''"
    by (rule conjunct1)
  from all have "status ?res \<in> {''UNKNOWN'', ''COMPLIANT'', ''INFO''} \<longrightarrow> severity ?res = ''INFO''"
    by (elim conjE)
  with st have info: "severity ?res = ''INFO''"
    by (rule rev_mp)
  from all have nonempty: "references ?res \<noteq> []"
    by (elim conjE)
  from all have first: "hd (references ?res) = ''COLEAD GAP Database''"
    by (elim conjE)
  from ret st info minor nonempty first show ?thesis
    by (intro conjI)
qed

end
